theory Spec2Isabelle
  imports Main "HOL-Library.AList"
begin

section \<open>JavaScript values and the browser environment\<close>

text \<open>
  The scripts of the survey builder (\<^verbatim>\<open>static/admin_script.js\<close> in its three revisions
  and \<^verbatim>\<open>static/survey_script.js\<close>) are event handlers over the page's DOM. Each handler
  is embedded as a function from the page state to the new page state and the effects of
  the run: the requests handed to \<^verbatim>\<open>fetch\<close>, the \<^verbatim>\<open>alert\<close> dialogs (each blocks the
  script until the user has closed it), the console lines and the navigations started by
  assigning \<^verbatim>\<open>window.location.href\<close>.

  The values the handlers read from a JSON response are modelled by \<open>jsval\<close>: a missing
  property (\<^verbatim>\<open>undefined\<close>), \<^verbatim>\<open>null\<close>, booleans, strings and objects. JSON numbers
  and arrays are left out. An object is the list of its own properties, one
  entry per key; its prototype is \<^verbatim>\<open>Object.prototype\<close>, as for every object that
  \<^verbatim>\<open>JSON.parse\<close> builds. Strings are byte lists; the only characters the scripts test for
  (\<^verbatim>\<open>'/'\<close> and \<^verbatim>\<open>'@'\<close>) are ASCII.
\<close>

datatype jsval =
    JUndefined
  | JNull
  | JBool bool
  | JStr string
  | JObj "(string \<times> jsval) list"

datatype js_error = TypeError

text \<open>JavaScript truthiness, as tested by \<^verbatim>\<open>!x\<close>, \<^verbatim>\<open>x || y\<close> and \<^verbatim>\<open>if (x)\<close>.\<close>

fun truthy :: "jsval \<Rightarrow> bool" where
  "truthy JUndefined = False"
| "truthy JNull = False"
| "truthy (JBool b) = b"
| "truthy (JStr s) = (s \<noteq> [])"
| "truthy (JObj ps) = True"

definition js_or :: "jsval \<Rightarrow> jsval \<Rightarrow> jsval" where
  "js_or a b = (if truthy a then a else b)"

text \<open>
  String conversion, as done by a template literal, by \<^verbatim>\<open>"..." + x\<close> and by the DOM
  setters. An object is converted through its \<^verbatim>\<open>toString\<close> and \<^verbatim>\<open>valueOf\<close>
  properties: the inherited \<^verbatim>\<open>toString\<close> gives \<^verbatim>\<open>[object Object]\<close>, the inherited
  \<^verbatim>\<open>valueOf\<close> gives the object back, and a property of its own parsed from JSON is
  never a function. So an object with a \<^verbatim>\<open>toString\<close> property of its own has no
  string conversion, and the conversion throws a TypeError.
\<close>

fun to_string :: "jsval \<Rightarrow> js_error + string" where
  "to_string JUndefined = Inr ''undefined''"
| "to_string JNull = Inr ''null''"
| "to_string (JBool b) = Inr (if b then ''true'' else ''false'')"
| "to_string (JStr s) = Inr s"
| "to_string (JObj ps) =
     (case map_of ps ''toString'' of
        None \<Rightarrow> Inr ''[object Object]''
      | Some v \<Rightarrow> Inl TypeError)"

text \<open>
  Property read \<^verbatim>\<open>v.k\<close>. Reading a property of \<^verbatim>\<open>null\<close> or \<^verbatim>\<open>undefined\<close> throws a
  TypeError; a property an object does not have is \<^verbatim>\<open>undefined\<close>, and so are the
  properties the scripts read (\<^verbatim>\<open>error\<close>, \<^verbatim>\<open>message\<close>, \<^verbatim>\<open>survey_id\<close>,
  \<^verbatim>\<open>survey_url\<close>) on a boolean or a string.
\<close>

fun get_prop :: "jsval \<Rightarrow> string \<Rightarrow> js_error + jsval" where
  "get_prop JUndefined k = Inl TypeError"
| "get_prop JNull k = Inl TypeError"
| "get_prop (JObj ps) k = Inr (case map_of ps k of None \<Rightarrow> JUndefined | Some v \<Rightarrow> v)"
| "get_prop (JBool b) k = Inr JUndefined"
| "get_prop (JStr s) k = Inr JUndefined"

text \<open>
  The DOM setters convert what they are given: \<^verbatim>\<open>node.textContent = v\<close> takes \<^verbatim>\<open>null\<close>
  and \<^verbatim>\<open>undefined\<close> to the empty text, \<^verbatim>\<open>input.value = v\<close> takes \<^verbatim>\<open>null\<close> to the
  empty string; every other value is converted to a string, and the assignment throws
  when the conversion does. An input does not keep every string it is given: it keeps
  what the value sanitisation of its type leaves (a text input takes the line breaks
  out). The markup of the admin page is not among the sources, so the sanitisation of
  the share-link input is a component of the page.
\<close>

fun text_content :: "jsval \<Rightarrow> js_error + string" where
  "text_content JUndefined = Inr []"
| "text_content JNull = Inr []"
| "text_content v = to_string v"

fun input_value :: "jsval \<Rightarrow> js_error + string" where
  "input_value JNull = Inr []"
| "input_value v = to_string v"

text \<open>The value sanitisation of a text input.\<close>

definition text_input_sanitize :: "string \<Rightarrow> string" where
  "text_input_sanitize v = filter (\<lambda>c. c \<noteq> CHR 0x0A \<and> c \<noteq> CHR 0x0D) v"

text \<open>A \<^verbatim>\<open>classList\<close> is an ordered set of tokens.\<close>

definition class_add :: "string \<Rightarrow> string list \<Rightarrow> string list" where
  "class_add c cs = (if c \<in> set cs then cs else cs @ [c])"

definition class_remove :: "string \<Rightarrow> string list \<Rightarrow> string list" where
  "class_remove c cs = filter (\<lambda>x. x \<noteq> c) cs"

subsection \<open>Requests and responses\<close>

record js_file =
  file_name :: string
  file_content :: string

text \<open>
  A request body is either a \<^verbatim>\<open>FormData\<close> (sent as multipart form fields) or the text
  produced by \<^verbatim>\<open>JSON.stringify\<close>, kept as the value that was serialised.
\<close>

datatype body =
    FormDataBody "(string \<times> js_file) list"
  | JsonBody jsval

record request =
  req_method :: string
  req_url :: string
  req_headers :: "(string \<times> string) list"
  req_body :: body

text \<open>
  What \<^verbatim>\<open>await fetch(...)\<close> followed by \<^verbatim>\<open>await response.json()\<close> can yield:
  \<open>FetchFails\<close> when the promise of \<^verbatim>\<open>fetch\<close> rejects (a network-level failure), and
  otherwise a response with its \<^verbatim>\<open>ok\<close> flag and its body parsed as JSON, \<open>None\<close> when
  the body is not JSON and \<^verbatim>\<open>response.json()\<close> rejects.
\<close>

datatype fetch_result =
    FetchFails
  | Response bool "jsval option"

type_synonym network = "request \<Rightarrow> fetch_result"

record effects =
  requests :: "request list"
  alerts :: "string list"
  console :: "string list"
  navigations :: "string list"

definition no_effects :: effects where
  "no_effects = \<lparr>requests = [], alerts = [], console = [], navigations = []\<rparr>"

section \<open>The admin page: \<^verbatim>\<open>static/admin_script.js\<close>\<close>

text \<open>
  The state of the admin page: the script's variable \<^verbatim>\<open>currentSurveyId\<close>, the values
  of the two inputs, the value sanitisation of the share-link input, the class lists of
  the two screens and of the notification (\<^verbatim>\<open>successModal\<close>) and the texts of its title
  and message. The elements the script selects at \<^verbatim>\<open>DOMContentLoaded\<close> are taken to
  exist.
\<close>

record admin_page =
  currentSurveyId :: jsval
  shareLinkInput :: string
  shareLinkInput_sanitize :: "string \<Rightarrow> string"
  shareEmailInput :: string
  uploadScreen :: "string list"
  publishedScreen :: "string list"
  successModal :: "string list"
  modalTitle :: string
  modalMessage :: string

text \<open>
  \<^verbatim>\<open>showModal\<close> writes the title, then the message, then takes the two classes off.
  An assignment whose conversion throws ends the call there: \<open>showModal\<close> gives the page
  as the call leaves it, and \<open>showModal_throws\<close> tells whether it left by an exception.
\<close>

definition showModal :: "jsval \<Rightarrow> jsval \<Rightarrow> admin_page \<Rightarrow> admin_page" where
  "showModal title message p =
     (case text_content title of
        Inl e \<Rightarrow> p
      | Inr t \<Rightarrow>
          (case text_content message of
             Inl e \<Rightarrow> p\<lparr>modalTitle := t\<rparr>
           | Inr m \<Rightarrow>
               p\<lparr>modalTitle := t,
                 modalMessage := m,
                 successModal :=
                   class_remove ''opacity-0''
                     (class_remove ''translate-x-full'' (successModal p))\<rparr>))"

definition showModal_throws :: "jsval \<Rightarrow> jsval \<Rightarrow> bool" where
  "showModal_throws title message =
     (case text_content title of
        Inl e \<Rightarrow> True
      | Inr t \<Rightarrow> (case text_content message of Inl e \<Rightarrow> True | Inr m \<Rightarrow> False))"

definition hideModal :: "admin_page \<Rightarrow> admin_page" where
  "hideModal p =
     p\<lparr>successModal :=
         class_add ''opacity-0'' (class_add ''translate-x-full'' (successModal p))\<rparr>"

text \<open>The notification is off screen and transparent while it carries both classes.\<close>

definition modal_hidden :: "admin_page \<Rightarrow> bool" where
  "modal_hidden p \<longleftrightarrow>
     ''translate-x-full'' \<in> set (successModal p) \<and> ''opacity-0'' \<in> set (successModal p)"

definition modal_shown :: "admin_page \<Rightarrow> bool" where
  "modal_shown p \<longleftrightarrow>
     ''translate-x-full'' \<notin> set (successModal p) \<and> ''opacity-0'' \<notin> set (successModal p)"

subsection \<open>Upload\<close>

definition upload_request :: "js_file \<Rightarrow> request" where
  "upload_request file =
     \<lparr>req_method = ''POST'', req_url = ''/upload'', req_headers = [],
      req_body = FormDataBody [(''surveyFile'', file)]\<rparr>"

text \<open>The \<^verbatim>\<open>catch\<close> block of the upload handler.\<close>

definition upload_catch :: "request \<Rightarrow> admin_page \<Rightarrow> admin_page \<times> effects" where
  "upload_catch req p =
     (showModal (JStr ''Error'') (JStr ''Could not connect to the server.'') p,
      \<lparr>requests = [req], alerts = [], console = [''Error uploading file:''], navigations = []\<rparr>)"

text \<open>
  The \<^verbatim>\<open>change\<close> handler of the file input. \<open>files\<close> is \<^verbatim>\<open>event.target.files\<close>;
  \<^verbatim>\<open>files[0]\<close> of an empty list is \<^verbatim>\<open>undefined\<close> and the handler returns. Whatever
  throws inside the \<^verbatim>\<open>try\<close> block passes the page, as changed so far, to the
  \<^verbatim>\<open>catch\<close> block.
\<close>

definition fileInput_change :: "network \<Rightarrow> js_file list \<Rightarrow> admin_page \<Rightarrow> admin_page \<times> effects" where
  "fileInput_change net files p =
     (case files of
        [] \<Rightarrow> (p, no_effects)
      | file # rest \<Rightarrow>
          let req = upload_request file in
          (case net req of
             FetchFails \<Rightarrow> upload_catch req p
           | Response ok None \<Rightarrow> upload_catch req p
           | Response ok (Some result) \<Rightarrow>
               if ok then
                 (case get_prop result ''survey_id'' of
                    Inl e \<Rightarrow> upload_catch req p
                  | Inr sid \<Rightarrow>
                      let p1 = p\<lparr>currentSurveyId := sid\<rparr> in
                      (case get_prop result ''survey_url'' of
                         Inl e \<Rightarrow> upload_catch req p1
                       | Inr url \<Rightarrow>
                           (case input_value url of
                              Inl e \<Rightarrow> upload_catch req p1
                            | Inr link \<Rightarrow>
                                (showModal (JStr ''Success!'')
                                   (JStr ''Your form has been published.'')
                                   (p1\<lparr>shareLinkInput := shareLinkInput_sanitize p1 link,
                                       uploadScreen := class_add ''hidden'' (uploadScreen p1),
                                       publishedScreen :=
                                         class_remove ''hidden'' (publishedScreen p1)\<rparr>),
                                 no_effects\<lparr>requests := [req]\<rparr>))))
               else
                 (case get_prop result ''error'' of
                    Inl e \<Rightarrow> upload_catch req p
                  | Inr err \<Rightarrow>
                      let message = js_or err (JStr ''An unknown error occurred.'');
                          shown = showModal (JStr ''Upload Failed'') message p
                      in
                      if showModal_throws (JStr ''Upload Failed'') message
                      then upload_catch req shown
                      else (shown, no_effects\<lparr>requests := [req]\<rparr>))))"

subsection \<open>Share by email (the email button)\<close>

definition share_request :: "string \<Rightarrow> string \<Rightarrow> request" where
  "share_request email link =
     \<lparr>req_method = ''POST'', req_url = ''/share_email'',
      req_headers = [(''Content-Type'', ''application/json'')],
      req_body = JsonBody (JObj [(''email'', JStr email), (''link'', JStr link)])\<rparr>"

definition email_catch :: "request \<Rightarrow> admin_page \<Rightarrow> admin_page \<times> effects" where
  "email_catch req p =
     (showModal (JStr ''Error'') (JStr ''Could not connect to the server.'') p,
      \<lparr>requests = [req], alerts = [], console = [''Error sending email:''], navigations = []\<rparr>)"

definition emailButton_click :: "network \<Rightarrow> admin_page \<Rightarrow> admin_page \<times> effects" where
  "emailButton_click net p =
     (let email = shareEmailInput p; link = shareLinkInput p in
      if email = [] \<or> CHR ''@'' \<notin> set email then
        (showModal (JStr ''Error'') (JStr ''Please enter a valid email address.'') p, no_effects)
      else
        let req = share_request email link in
        (case net req of
           FetchFails \<Rightarrow> email_catch req p
         | Response ok None \<Rightarrow> email_catch req p
         | Response ok (Some result) \<Rightarrow>
             if ok then
               (case get_prop result ''message'' of
                  Inl e \<Rightarrow> email_catch req p
                | Inr msg \<Rightarrow>
                    if showModal_throws (JStr ''Email Sent'') msg
                    then email_catch req (showModal (JStr ''Email Sent'') msg p)
                    else (showModal (JStr ''Email Sent'') msg p,
                          no_effects\<lparr>requests := [req]\<rparr>))
             else
               (case get_prop result ''error'' of
                  Inl e \<Rightarrow> email_catch req p
                | Inr err \<Rightarrow>
                    let message = js_or err (JStr ''Failed to send email.'');
                        shown = showModal (JStr ''Error'') message p
                    in
                    if showModal_throws (JStr ''Error'') message
                    then email_catch req shown
                    else (shown, no_effects\<lparr>requests := [req]\<rparr>))))"

subsection \<open>Download\<close>

text \<open>
  The \<^verbatim>\<open>click\<close> handler of the download button has no \<^verbatim>\<open>try\<close> block: when the
  template literal cannot convert \<^verbatim>\<open>currentSurveyId\<close>, the TypeError leaves the handler
  and nothing is assigned to \<^verbatim>\<open>window.location.href\<close>.
\<close>

definition downloadButton_click :: "admin_page \<Rightarrow> js_error + admin_page \<times> effects" where
  "downloadButton_click p =
     (if \<not> truthy (currentSurveyId p) then
        Inr (showModal (JStr ''Error'')
               (JStr ''Cannot download responses, survey ID is missing.'') p,
             no_effects)
      else
        (case to_string (currentSurveyId p) of
           Inl e \<Rightarrow> Inl e
         | Inr text \<Rightarrow> Inr (p, no_effects\<lparr>navigations := [''/download/'' @ text]\<rparr>)))"

section \<open>The share dialog: \<^verbatim>\<open>sendEmail\<close> of the other \<^verbatim>\<open>static/admin_script.js\<close>\<close>

text \<open>
  Another revision of the admin script shares a link from a dialog. Its elements are
  looked up when the script loads and the script itself allows for their absence, so
  each is optional here: the values of the two inputs, the class list of the dialog and
  the send button that \<^verbatim>\<open>sendEmail\<close> looks up with \<^verbatim>\<open>querySelector\<close>.
\<close>

record button =
  innerHTML :: string
  disabled :: bool

record share_page =
  modalEmailInput :: "string option"
  modalLinkInput :: "string option"
  shareModal :: "string list option"
  sendButton :: "button option"

definition closeShareModal :: "share_page \<Rightarrow> share_page" where
  "closeShareModal p =
     (case shareModal p of
        None \<Rightarrow> p
      | Some cs \<Rightarrow> p\<lparr>shareModal := Some (class_add ''hidden'' cs)\<rparr>)"

text \<open>The \<^verbatim>\<open>.finally\<close> callback: the button gets its content back and is enabled.\<close>

definition sendEmail_finally :: "string \<Rightarrow> share_page \<Rightarrow> share_page" where
  "sendEmail_finally originalContent p =
     (case sendButton p of
        None \<Rightarrow> p
      | Some b \<Rightarrow> p\<lparr>sendButton := Some (b\<lparr>innerHTML := originalContent, disabled := False\<rparr>)\<rparr>)"

definition sending_html :: string where
  \<open>sending_html = ''<i class="fa fa-spinner fa-spin"></i> Sending...''\<close>

definition sendEmail_catch :: "request \<Rightarrow> effects" where
  "sendEmail_catch req =
     \<lparr>requests = [req], alerts = ['' Failed to connect to server.''], console = [''err''],
      navigations = []\<rparr>"

text \<open>
  \<^verbatim>\<open>sendEmail\<close> with its promise chain run to the end. Reading \<^verbatim>\<open>.value\<close> of an input
  that is absent throws out of the function; what throws inside a \<^verbatim>\<open>then\<close> callback,
  before its \<^verbatim>\<open>alert\<close> is called, goes to the \<^verbatim>\<open>catch\<close> callback.
\<close>

definition sendEmail :: "network \<Rightarrow> share_page \<Rightarrow> js_error + share_page \<times> effects" where
  "sendEmail net p =
     (case modalEmailInput p of
        None \<Rightarrow> Inl TypeError
      | Some email \<Rightarrow>
          (case modalLinkInput p of
             None \<Rightarrow> Inl TypeError
           | Some link \<Rightarrow>
               if email = [] then
                 Inr (p, no_effects\<lparr>alerts := [''Please enter an email address'']\<rparr>)
               else
                 let originalContent =
                       (case sendButton p of None \<Rightarrow> ''Send Now'' | Some b \<Rightarrow> innerHTML b);
                     p1 = (case sendButton p of
                             None \<Rightarrow> p
                           | Some b \<Rightarrow>
                               p\<lparr>sendButton :=
                                   Some (b\<lparr>innerHTML := sending_html, disabled := True\<rparr>)\<rparr>);
                     req = share_request email link
                 in
                 (case net req of
                    FetchFails \<Rightarrow> Inr (sendEmail_finally originalContent p1, sendEmail_catch req)
                  | Response ok None \<Rightarrow>
                      Inr (sendEmail_finally originalContent p1, sendEmail_catch req)
                  | Response ok (Some data) \<Rightarrow>
                      (case get_prop data ''error'' of
                         Inl e \<Rightarrow> Inr (sendEmail_finally originalContent p1, sendEmail_catch req)
                       | Inr err \<Rightarrow>
                           if truthy err then
                             (case to_string err of
                                Inl e \<Rightarrow>
                                  Inr (sendEmail_finally originalContent p1, sendEmail_catch req)
                              | Inr text \<Rightarrow>
                                  Inr (sendEmail_finally originalContent p1,
                                       \<lparr>requests = [req], alerts = ['' Error: '' @ text],
                                        console = [], navigations = []\<rparr>))
                           else
                             (case get_prop data ''message'' of
                                Inl e \<Rightarrow>
                                  Inr (sendEmail_finally originalContent p1, sendEmail_catch req)
                              | Inr msg \<Rightarrow>
                                  (case to_string (js_or msg (JStr ''Email sent successfully!'')) of
                                     Inl e \<Rightarrow>
                                       Inr (sendEmail_finally originalContent p1,
                                            sendEmail_catch req)
                                   | Inr text \<Rightarrow>
                                       Inr (sendEmail_finally originalContent (closeShareModal p1),
                                            \<lparr>requests = [req], alerts = ['' '' @ text],
                                             console = [], navigations = []\<rparr>)))))))"

section \<open>The survey page: \<^verbatim>\<open>static/survey_script.js\<close>\<close>

text \<open>
  \<^verbatim>\<open>s.split(c)\<close> for a one-character separator: the segments of \<open>s\<close> between the
  occurrences of \<open>c\<close>; there is always at least one segment.
\<close>

fun js_split :: "char \<Rightarrow> string \<Rightarrow> string list" where
  "js_split c [] = [[]]"
| "js_split c (x # xs) =
     (if x = c then [] # js_split c xs
      else (case js_split c xs of
              [] \<Rightarrow> [[x]]
            | seg # segs \<Rightarrow> (x # seg) # segs))"

text \<open>An array read \<^verbatim>\<open>a[i]\<close>: \<^verbatim>\<open>undefined\<close> (here \<open>None\<close>) outside the array.\<close>

definition js_index :: "'a list \<Rightarrow> int \<Rightarrow> 'a option" where
  "js_index xs i = (if 0 \<le> i \<and> i < int (length xs) then Some (xs ! nat i) else None)"

text \<open>
  An entry of a \<^verbatim>\<open>FormData\<close> is a string or a file. \<^verbatim>\<open>JSON.stringify\<close> writes a
  string as itself and a \<^verbatim>\<open>File\<close>, which has no enumerable property of its own, as the
  empty object.
\<close>

datatype entry_value = EString string | EFile js_file

fun entry_json :: "entry_value \<Rightarrow> jsval" where
  "entry_json (EString s) = JStr s"
| "entry_json (EFile f) = JObj []"

text \<open>
  The assignment \<^verbatim>\<open>data[key] = value\<close> on a plain object: the property is created
  after the existing ones or overwritten in place. The key \<^verbatim>\<open>__proto__\<close> names the
  accessor inherited from \<^verbatim>\<open>Object.prototype\<close>, and assigning to it creates no property.
  The order in which \<^verbatim>\<open>JSON.stringify\<close> writes the properties is not modelled.
\<close>

definition obj_set :: "string \<Rightarrow> 'v \<Rightarrow> (string \<times> 'v) list \<Rightarrow> (string \<times> 'v) list" where
  "obj_set key v data = (if key = ''__proto__'' then data else AList.update key v data)"

text \<open>The loop \<^verbatim>\<open>formData.forEach((value, key) => { data[key] = value; })\<close> from \<^verbatim>\<open>{}\<close>.\<close>

definition form_data_object :: "(string \<times> entry_value) list \<Rightarrow> (string \<times> entry_value) list" where
  "form_data_object entries = foldl (\<lambda>data (key, v). obj_set key v data) [] entries"

definition json_stringify_data :: "(string \<times> entry_value) list \<Rightarrow> jsval" where
  "json_stringify_data data = JObj (map (\<lambda>(key, v). (key, entry_json v)) data)"

text \<open>
  A control of the form (an element of \<^verbatim>\<open>form.elements\<close>): its \<^verbatim>\<open>name\<close> and \<^verbatim>\<open>id\<close>,
  the state a reset restores (its value, checkedness or selectedness) with the default
  for it, whether the control is one a reset applies to (a button is not), and its
  \<^verbatim>\<open>disabled\<close> property.
\<close>

record form_element =
  el_name :: string
  el_id :: string
  el_resettable :: bool
  el_value :: string
  el_default :: string
  el_disabled :: bool

text \<open>
  The state of the survey page: \<^verbatim>\<open>window.location.pathname\<close>, the controls of the form
  and the class list of the page's \<^verbatim>\<open>successModal\<close>, which is taken to exist.
\<close>

record survey_page =
  pathname :: string
  form_elements :: "form_element list"
  survey_successModal :: "string list"

text \<open>
  A property read \<^verbatim>\<open>form.x\<close> gives the controls whose \<^verbatim>\<open>name\<close> or \<^verbatim>\<open>id\<close> is \<open>x\<close>
  when there are any, before any property of the form itself: a control named
  \<^verbatim>\<open>reset\<close> hides the method \<^verbatim>\<open>form.reset\<close>, and one named \<^verbatim>\<open>elements\<close> hides the
  collection \<^verbatim>\<open>form.elements\<close>. (The form is taken to hold no image of such a name.)
\<close>

definition form_get :: "string \<Rightarrow> form_element list \<Rightarrow> form_element list" where
  "form_get x es = filter (\<lambda>e. el_name e = x \<or> el_id e = x) es"

definition form_reset :: "form_element list \<Rightarrow> form_element list" where
  "form_reset es = map (\<lambda>e. if el_resettable e then e\<lparr>el_value := el_default e\<rparr> else e) es"

text \<open>
  \<^verbatim>\<open>Array.from(form.elements)\<close>: all the controls when \<^verbatim>\<open>form.elements\<close> is the
  collection; the controls named \<^verbatim>\<open>elements\<close> when there are several of them (the read
  gives their list); and none of the controls when there is one (the read gives that
  control, which holds no control).
\<close>

definition array_from_elements :: "form_element list \<Rightarrow> form_element \<Rightarrow> bool" where
  "array_from_elements es e =
     (case form_get ''elements'' es of
        [] \<Rightarrow> True
      | [c] \<Rightarrow> False
      | c # d # cs \<Rightarrow> el_name e = ''elements'' \<or> el_id e = ''elements'')"

text \<open>\<^verbatim>\<open>Array.from(form.elements).forEach(element => element.disabled = true)\<close>.\<close>

definition disable_all :: "form_element list \<Rightarrow> form_element list" where
  "disable_all es =
     map (\<lambda>e. if array_from_elements es e then e\<lparr>el_disabled := True\<rparr> else e) es"

definition submit_request :: "string \<Rightarrow> (string \<times> entry_value) list \<Rightarrow> request" where
  "submit_request surveyId data =
     \<lparr>req_method = ''POST'', req_url = ''/submit/'' @ surveyId,
      req_headers = [(''Content-Type'', ''application/json'')],
      req_body = JsonBody (json_stringify_data data)\<rparr>"

definition submit_catch :: "request \<Rightarrow> survey_page \<Rightarrow> survey_page \<times> effects" where
  "submit_catch req pg =
     (pg, \<lparr>requests = [req], alerts = [''An error occurred while submitting the form.''],
           console = [''Submitting form data:'', ''Submission error:''], navigations = []\<rparr>)"

text \<open>
  The \<^verbatim>\<open>submit\<close> handler of the survey form. \<open>entries\<close> is what
  \<^verbatim>\<open>new FormData(form)\<close> holds, in order. On an ok response the handler shows the
  \<^verbatim>\<open>successModal\<close> and calls \<^verbatim>\<open>form.reset()\<close>, which throws into the \<^verbatim>\<open>catch\<close> block
  when \<^verbatim>\<open>form.reset\<close> is a control and not the method.
\<close>

definition surveyForm_submit ::
  "network \<Rightarrow> (string \<times> entry_value) list \<Rightarrow> survey_page \<Rightarrow> survey_page \<times> effects" where
  "surveyForm_submit net entries pg =
     (let pathParts = js_split CHR ''/'' (pathname pg);
          surveyId = js_index pathParts (int (length pathParts) - 1)
      in
      case surveyId of
        None \<Rightarrow>
          (pg, \<lparr>requests = [], alerts = [''Error: Cannot submit form without a survey ID.''],
                console = [''Survey ID not found in URL!''], navigations = []\<rparr>)
      | Some sid \<Rightarrow>
          if sid = [] then
            (pg, \<lparr>requests = [], alerts = [''Error: Cannot submit form without a survey ID.''],
                  console = [''Survey ID not found in URL!''], navigations = []\<rparr>)
          else
            let data = form_data_object entries;
                req = submit_request sid data
            in
            (case net req of
               FetchFails \<Rightarrow> submit_catch req pg
             | Response ok None \<Rightarrow> submit_catch req pg
             | Response ok (Some result) \<Rightarrow>
                 if ok then
                   let shown = pg\<lparr>survey_successModal :=
                                     class_remove ''hidden'' (survey_successModal pg)\<rparr>
                   in
                   if form_get ''reset'' (form_elements pg) \<noteq> [] then submit_catch req shown
                   else
                     (shown\<lparr>form_elements := disable_all (form_reset (form_elements pg))\<rparr>,
                      \<lparr>requests = [req], alerts = [], console = [''Submitting form data:''],
                       navigations = []\<rparr>)
                 else
                   (case get_prop result ''error'' of
                      Inl e \<Rightarrow> submit_catch req pg
                    | Inr err \<Rightarrow>
                        (case to_string (js_or err (JStr ''Could not submit survey.'')) of
                           Inl e \<Rightarrow> submit_catch req pg
                         | Inr text \<Rightarrow>
                             (pg, \<lparr>requests = [req], alerts = [''Error: '' @ text],
                                   console = [''Submitting form data:''],
                                   navigations = []\<rparr>)))))"

section \<open>Concrete pages and networks to run the handlers on\<close>

text \<open>
  A network that is down, a server that answers every request with the same JSON value,
  and one that answers with a body that is not JSON.
\<close>

definition net_down :: network where
  "net_down req = FetchFails"

definition net_reply :: "bool \<Rightarrow> jsval \<Rightarrow> network" where
  "net_reply ok v req = Response ok (Some v)"


text \<open>
  The admin page as the script finds it: \<^verbatim>\<open>currentSurveyId\<close> is \<^verbatim>\<open>null\<close>, the upload
  screen is visible, the published screen and the notification are hidden.
\<close>

definition loaded_admin_page :: admin_page where
  "loaded_admin_page =
     \<lparr>currentSurveyId = JNull, shareLinkInput = [],
      shareLinkInput_sanitize = text_input_sanitize, shareEmailInput = [],
      uploadScreen = [], publishedScreen = [''hidden''],
      successModal = [''translate-x-full'', ''opacity-0''],
      modalTitle = [], modalMessage = []\<rparr>"

text \<open>The admin page after a survey has been published and an address typed in.\<close>

definition published_admin_page :: admin_page where
  "published_admin_page =
     loaded_admin_page
       \<lparr>currentSurveyId := JStr ''abc-123'',
        shareLinkInput := ''http://127.0.0.1:5000/survey/abc-123'',
        shareEmailInput := ''ada@example.org'',
        uploadScreen := [''hidden''], publishedScreen := []\<rparr>"

definition sheet :: js_file where
  "sheet = \<lparr>file_name = ''survey.xlsx'', file_content = ''PK''\<rparr>"

definition upload_reply :: jsval where
  "upload_reply =
     JObj [(''survey_id'', JStr ''abc-123''),
           (''survey_url'', JStr ''http://127.0.0.1:5000/survey/abc-123'')]"

definition error_reply :: jsval where
  "error_reply = JObj [(''error'', JStr ''Invalid file'')]"

definition open_share_page :: share_page where
  "open_share_page =
     \<lparr>modalEmailInput = Some ''abc'',
      modalLinkInput = Some ''http://127.0.0.1:5000/survey/abc-123'',
      shareModal = Some [],
      sendButton = Some \<lparr>innerHTML = ''Send Now'', disabled = False\<rparr>\<rparr>"

text \<open>A survey page with one text field, filled in, and a submit button.\<close>

definition name_field :: form_element where
  "name_field =
     \<lparr>el_name = ''Name'', el_id = [], el_resettable = True, el_value = ''Ada'',
      el_default = [], el_disabled = False\<rparr>"

definition submit_button :: form_element where
  "submit_button =
     \<lparr>el_name = [], el_id = [], el_resettable = False, el_value = ''Submit'',
      el_default = ''Submit'', el_disabled = False\<rparr>"

definition rendered_survey_page :: survey_page where
  "rendered_survey_page =
     \<lparr>pathname = ''/survey/abc-123'',
      form_elements = [name_field, submit_button],
      survey_successModal = [''hidden'']\<rparr>"


text \<open>A reply whose error message and whose link cannot be converted to a string.\<close>

definition unprintable :: jsval where
  "unprintable = JObj [(''toString'', JStr ''x'')]"

section \<open>Facts about the environment\<close>

subsection \<open>Class lists and the notification\<close>

lemma set_class_add: "set (class_add c cs) = insert c (set cs)"
  by (auto simp: class_add_def)

lemma set_class_remove: "set (class_remove c cs) = set cs - {c}"
  by (auto simp: class_remove_def)

lemma showModal_keeps:
  "currentSurveyId (showModal t m p) = currentSurveyId p"
  "shareLinkInput (showModal t m p) = shareLinkInput p"
  "shareLinkInput_sanitize (showModal t m p) = shareLinkInput_sanitize p"
  "shareEmailInput (showModal t m p) = shareEmailInput p"
  "uploadScreen (showModal t m p) = uploadScreen p"
  "publishedScreen (showModal t m p) = publishedScreen p"
  by (simp_all add: showModal_def split: sum.splits)

lemma showModal_strings:
  "showModal (JStr t) (JStr m) p =
     p\<lparr>modalTitle := t, modalMessage := m,
       successModal :=
         class_remove ''opacity-0'' (class_remove ''translate-x-full'' (successModal p))\<rparr>"
  by (simp add: showModal_def)

lemma showModal_texts:
  "modalTitle (showModal (JStr t) (JStr m) p) = t"
  "modalMessage (showModal (JStr t) (JStr m) p) = m"
  by (simp_all add: showModal_strings)

lemma showModal_strings_returns: "\<not> showModal_throws (JStr t) (JStr m)"
  by (simp add: showModal_throws_def)

lemma modal_shown_showModal: "modal_shown (showModal (JStr t) (JStr m) p)"
  by (simp add: modal_shown_def showModal_strings set_class_remove)

lemma showModal_returns:
  assumes "\<not> showModal_throws t m"
  shows "\<exists>title message. showModal t m p = showModal (JStr title) (JStr message) p \<and>
           text_content t = Inr title \<and> text_content m = Inr message"
  using assms
  by (auto simp: showModal_def showModal_throws_def split: sum.splits)

text \<open>The \<^verbatim>\<open>catch\<close> blocks show their notification over whatever a failed call left.\<close>

lemma showModal_over_showModal:
  "showModal (JStr t) (JStr m) (showModal t' m' p) = showModal (JStr t) (JStr m) p"
  by (simp add: showModal_def class_remove_def split: sum.splits)

lemma modal_hidden_hideModal: "modal_hidden (hideModal p)"
  by (simp add: modal_hidden_def hideModal_def set_class_add)

lemma js_or_message: "m \<noteq> [] \<Longrightarrow> js_or (JStr m) d = JStr m"
  by (simp add: js_or_def)

subsection \<open>Splitting a path\<close>

lemma js_split_not_Nil: "js_split c s \<noteq> []"
  by (induction s) (auto split: list.splits)

lemma js_split_no_separator: "seg \<in> set (js_split c s) \<Longrightarrow> c \<notin> set seg"
proof (induction s arbitrary: seg)
  case Nil
  then show ?case by simp
next
  case (Cons x xs)
  then show ?case
    by (cases "js_split c xs") (auto split: if_splits)
qed

lemma js_split_without_separator: "c \<notin> set s \<Longrightarrow> js_split c s = [s]"
  by (induction s) auto

lemma length_js_split: "length (js_split c s) = Suc (length (filter (\<lambda>x. x = c) s))"
  by (induction s) (auto split: list.splits)

lemma js_split_after_separator: "last (js_split c (a @ c # b)) = last (js_split c b)"
proof (induction a)
  case Nil
  then show ?case by (simp add: js_split_not_Nil)
next
  case (Cons x a)
  show ?case
  proof (cases "x = c")
    case True
    with Cons show ?thesis by (simp add: js_split_not_Nil)
  next
    case False
    have "2 \<le> length (js_split c (a @ c # b))"
      by (simp add: length_js_split)
    then obtain seg seg' segs where "js_split c (a @ c # b) = seg # seg' # segs"
      by (cases "js_split c (a @ c # b)"; cases "tl (js_split c (a @ c # b))") auto
    with Cons False show ?thesis by simp
  qed
qed

lemma js_split_last: "last (js_split c s) = rev (takeWhile (\<lambda>x. x \<noteq> c) (rev s))"
proof (cases "c \<in> set s")
  case False
  then have whole: "rev (takeWhile (\<lambda>x. x \<noteq> c) (rev s)) = s"
    by (subst takeWhile_eq_all_conv [THEN iffD2]) auto
  from False have "js_split c s = [s]"
    by (rule js_split_without_separator)
  then show ?thesis
    unfolding whole by simp
next
  case True
  then obtain a b where s: "s = a @ c # b" and b: "c \<notin> set b"
    by (auto dest: split_list_last)
  from b have "takeWhile (\<lambda>x. x \<noteq> c) (rev b @ c # rev a) = rev b"
    by (subst takeWhile_append2) auto
  with s b show ?thesis
    by (simp add: js_split_after_separator js_split_without_separator)
qed

lemma js_index_last: "xs \<noteq> [] \<Longrightarrow> js_index xs (int (length xs) - 1) = Some (last xs)"
  by (cases xs rule: rev_cases) (auto simp: js_index_def nth_append)

lemma surveyId_read:
  "js_index (js_split c s) (int (length (js_split c s)) - 1) = Some (last (js_split c s))"
  by (rule js_index_last) (rule js_split_not_Nil)

subsection \<open>The object built from the form data\<close>

lemma map_of_obj_set:
  "map_of (obj_set key v data) k =
     (if key = ''__proto__'' then map_of data k else ((map_of data)(key \<mapsto> v)) k)"
  by (simp add: obj_set_def update_conv')

lemma distinct_obj_set:
  "distinct (map fst data) \<Longrightarrow> distinct (map fst (obj_set key v data))"
  by (simp add: obj_set_def distinct_update)

lemma map_of_forEach:
  "map_of (foldl (\<lambda>data (key, v). obj_set key v data) acc entries) k =
     (if k = ''__proto__'' then map_of acc k
      else (case map_of (rev entries) k of None \<Rightarrow> map_of acc k | Some v \<Rightarrow> Some v))"
proof (induction entries arbitrary: acc)
  case Nil
  then show ?case by simp
next
  case (Cons e entries)
  obtain key v where e: "e = (key, v)" by (cases e)
  show ?case
    by (simp add: Cons.IH e map_of_obj_set map_add_def split: option.splits)
qed

lemma distinct_forEach:
  "distinct (map fst acc) \<Longrightarrow>
   distinct (map fst (foldl (\<lambda>data (key, v). obj_set key v data) acc entries))"
  by (induction entries arbitrary: acc) (auto simp: distinct_obj_set)

lemma map_of_form_data_object:
  "map_of (form_data_object entries) k =
     (if k = ''__proto__'' then None else map_of (rev entries) k)"
  by (simp add: form_data_object_def map_of_forEach split: option.splits)

lemma distinct_form_data_object: "distinct (map fst (form_data_object entries))"
  by (simp add: form_data_object_def distinct_forEach)

lemma map_of_json_properties:
  "map_of (map (\<lambda>(key, v). (key, entry_json v)) data) k = map_option entry_json (map_of data k)"
  by (simp add: map_of_map)

lemma json_stringify_data_keys:
  "map fst (map (\<lambda>(key, v). (key, entry_json v)) data) = map fst data"
  by (induction data) auto

section \<open>Runs of the handlers\<close>

lemma fileInput_change_requests:
  "requests (snd (fileInput_change net (file # rest) p)) = [upload_request file]"
  by (simp add: fileInput_change_def upload_catch_def no_effects_def Let_def
      split: fetch_result.splits option.splits sum.splits)

lemma fileInput_change_fails:
  "net (upload_request file) = FetchFails \<Longrightarrow>
   fileInput_change net (file # rest) p = upload_catch (upload_request file) p"
  by (simp add: fileInput_change_def Let_def)

lemma fileInput_change_not_ok:
  "net (upload_request file) = Response False body \<Longrightarrow>
   fileInput_change net (file # rest) p =
     (case body of
        None \<Rightarrow> upload_catch (upload_request file) p
      | Some result \<Rightarrow>
          (case get_prop result ''error'' of
             Inl e \<Rightarrow> upload_catch (upload_request file) p
           | Inr err \<Rightarrow>
               if showModal_throws (JStr ''Upload Failed'')
                    (js_or err (JStr ''An unknown error occurred.''))
               then upload_catch (upload_request file) p
               else
                 (showModal (JStr ''Upload Failed'')
                    (js_or err (JStr ''An unknown error occurred.'')) p,
                  no_effects\<lparr>requests := [upload_request file]\<rparr>)))"
  by (simp add: fileInput_change_def Let_def upload_catch_def showModal_over_showModal
      split: option.splits sum.splits)

lemma emailButton_click_invalid:
  "shareEmailInput p = [] \<or> CHR ''@'' \<notin> set (shareEmailInput p) \<Longrightarrow>
   emailButton_click net p =
     (showModal (JStr ''Error'') (JStr ''Please enter a valid email address.'') p, no_effects)"
  by (auto simp: emailButton_click_def Let_def)

lemma emailButton_click_valid:
  "shareEmailInput p \<noteq> [] \<Longrightarrow> CHR ''@'' \<in> set (shareEmailInput p) \<Longrightarrow>
   requests (snd (emailButton_click net p)) =
     [share_request (shareEmailInput p) (shareLinkInput p)]"
  by (simp add: emailButton_click_def email_catch_def no_effects_def Let_def
      split: fetch_result.splits option.splits sum.splits)

lemma emailButton_click_request_only_valid:
  "requests (snd (emailButton_click net p)) \<noteq> [] \<Longrightarrow>
   shareEmailInput p \<noteq> [] \<and> CHR ''@'' \<in> set (shareEmailInput p)"
proof (rule ccontr)
  assume sent: "requests (snd (emailButton_click net p)) \<noteq> []"
    and "\<not> (shareEmailInput p \<noteq> [] \<and> CHR ''@'' \<in> set (shareEmailInput p))"
  then have "shareEmailInput p = [] \<or> CHR ''@'' \<notin> set (shareEmailInput p)"
    by blast
  then have "requests (snd (emailButton_click net p)) = []"
    by (simp only: emailButton_click_invalid) (simp add: no_effects_def)
  with sent show False by contradiction
qed

lemma emailButton_click_fails:
  "shareEmailInput p \<noteq> [] \<Longrightarrow> CHR ''@'' \<in> set (shareEmailInput p) \<Longrightarrow>
   net (share_request (shareEmailInput p) (shareLinkInput p)) = FetchFails \<Longrightarrow>
   emailButton_click net p =
     email_catch (share_request (shareEmailInput p) (shareLinkInput p)) p"
  by (simp add: emailButton_click_def Let_def)

lemma emailButton_click_not_ok:
  "shareEmailInput p \<noteq> [] \<Longrightarrow> CHR ''@'' \<in> set (shareEmailInput p) \<Longrightarrow>
   net (share_request (shareEmailInput p) (shareLinkInput p)) = Response False (Some result) \<Longrightarrow>
   get_prop result ''error'' = Inr err \<Longrightarrow>
   \<not> showModal_throws (JStr ''Error'') (js_or err (JStr ''Failed to send email.'')) \<Longrightarrow>
   emailButton_click net p =
     (showModal (JStr ''Error'') (js_or err (JStr ''Failed to send email.'')) p,
      no_effects\<lparr>requests := [share_request (shareEmailInput p) (shareLinkInput p)]\<rparr>)"
  by (simp add: emailButton_click_def Let_def)

lemma surveyForm_submit_no_id:
  "last (js_split CHR ''/'' (pathname pg)) = [] \<Longrightarrow>
   surveyForm_submit net entries pg =
     (pg, \<lparr>requests = [], alerts = [''Error: Cannot submit form without a survey ID.''],
           console = [''Survey ID not found in URL!''], navigations = []\<rparr>)"
  by (simp add: surveyForm_submit_def surveyId_read)

lemma surveyForm_submit_with_id:
  "last (js_split CHR ''/'' (pathname pg)) = sid \<Longrightarrow> sid \<noteq> [] \<Longrightarrow>
   surveyForm_submit net entries pg =
     (let req = submit_request sid (form_data_object entries) in
      case net req of
        FetchFails \<Rightarrow> submit_catch req pg
      | Response ok None \<Rightarrow> submit_catch req pg
      | Response ok (Some result) \<Rightarrow>
          if ok then
            let shown = pg\<lparr>survey_successModal :=
                              class_remove ''hidden'' (survey_successModal pg)\<rparr>
            in
            if form_get ''reset'' (form_elements pg) \<noteq> [] then submit_catch req shown
            else
              (shown\<lparr>form_elements := disable_all (form_reset (form_elements pg))\<rparr>,
               \<lparr>requests = [req], alerts = [], console = [''Submitting form data:''],
                navigations = []\<rparr>)
          else
            (case get_prop result ''error'' of
               Inl e \<Rightarrow> submit_catch req pg
             | Inr err \<Rightarrow>
                 (case to_string (js_or err (JStr ''Could not submit survey.'')) of
                    Inl e \<Rightarrow> submit_catch req pg
                  | Inr text \<Rightarrow>
                      (pg, \<lparr>requests = [req], alerts = [''Error: '' @ text],
                            console = [''Submitting form data:''], navigations = []\<rparr>))))"
  by (simp add: surveyForm_submit_def surveyId_read Let_def)

lemma form_reset_keeps:
  "map el_name (form_reset es) = map el_name es"
  "map el_id (form_reset es) = map el_id es"
  by (simp_all add: form_reset_def)




lemma surveyForm_submit_requests:
  "last (js_split CHR ''/'' (pathname pg)) = sid \<Longrightarrow> sid \<noteq> [] \<Longrightarrow>
   requests (snd (surveyForm_submit net entries pg)) =
     [submit_request sid (form_data_object entries)]"
  by (simp add: surveyForm_submit_with_id submit_catch_def Let_def
      split: fetch_result.splits option.splits sum.splits)

lemma sendEmail_empty:
  "modalEmailInput p = Some [] \<Longrightarrow> modalLinkInput p = Some link \<Longrightarrow>
   sendEmail net p = Inr (p, no_effects\<lparr>alerts := [''Please enter an email address'']\<rparr>)"
  by (simp add: sendEmail_def)

lemma sendEmail_requests:
  "modalEmailInput p = Some email \<Longrightarrow> modalLinkInput p = Some link \<Longrightarrow> email \<noteq> [] \<Longrightarrow>
   \<exists>p' fx. sendEmail net p = Inr (p', fx) \<and> requests fx = [share_request email link]"
  by (simp add: sendEmail_def sendEmail_catch_def Let_def
      split: fetch_result.splits option.splits sum.splits)

lemma sendEmail_fails:
  "modalEmailInput p = Some email \<Longrightarrow> modalLinkInput p = Some link \<Longrightarrow> email \<noteq> [] \<Longrightarrow>
   net (share_request email link) = FetchFails \<Longrightarrow>
   \<exists>p'. sendEmail net p = Inr (p', sendEmail_catch (share_request email link))"
  by (simp add: sendEmail_def Let_def)

lemma sendEmail_error:
  "modalEmailInput p = Some email \<Longrightarrow> modalLinkInput p = Some link \<Longrightarrow> email \<noteq> [] \<Longrightarrow>
   net (share_request email link) = Response ok (Some result) \<Longrightarrow>
   get_prop result ''error'' = Inr err \<Longrightarrow> truthy err \<Longrightarrow> to_string err = Inr text \<Longrightarrow>
   \<exists>p'. sendEmail net p =
     Inr (p', \<lparr>requests = [share_request email link], alerts = ['' Error: '' @ text],
              console = [], navigations = []\<rparr>)"
  by (simp add: sendEmail_def Let_def)

lemma downloadButton_click_unset:
  "\<not> truthy (currentSurveyId p) \<Longrightarrow>
   downloadButton_click p =
     Inr (showModal (JStr ''Error'')
            (JStr ''Cannot download responses, survey ID is missing.'') p,
          no_effects)"
  by (simp add: downloadButton_click_def)

lemma downloadButton_click_set:
  "truthy (currentSurveyId p) \<Longrightarrow> to_string (currentSurveyId p) = Inr s \<Longrightarrow>
   downloadButton_click p = Inr (p, no_effects\<lparr>navigations := [''/download/'' @ s]\<rparr>)"
  by (simp add: downloadButton_click_def)

lemma downloadButton_click_throws:
  "truthy (currentSurveyId p) \<Longrightarrow> to_string (currentSurveyId p) = Inl e \<Longrightarrow>
   downloadButton_click p = Inl e"
  by (simp add: downloadButton_click_def)

section \<open>The claims\<close>

subsection \<open>C1: validation of the address before \<^verbatim>\<open>/share_email\<close>\<close>

text \<open>
  The email button of \<^verbatim>\<open>static/admin_script.js\<close> does what C1 says: an address that is
  empty or has no \<^verbatim>\<open>'@'\<close> gets the error notification and no request
  (\<open>emailButton_click_invalid\<close>), and a request is only sent for an address that passes
  (\<open>emailButton_click_request_only_valid\<close>).

  C1: \<^verbatim>\<open>sendEmail\<close>, the share dialog's path to the same endpoint, does not. It only
  tests the address for being empty, so every non-empty address is sent to
  \<^verbatim>\<open>/share_email\<close>, with or without an \<^verbatim>\<open>'@'\<close>.
\<close>

theorem sendEmail_sends_every_nonempty_email:
  assumes "modalEmailInput p = Some email" and "modalLinkInput p = Some link"
    and "email \<noteq> []"
  shows "\<exists>p' fx. sendEmail net p = Inr (p', fx) \<and> requests fx = [share_request email link]"
  using assms by (rule sendEmail_requests)

theorem sendEmail_sends_every_nonempty_email_witness:
  "CHR ''@'' \<notin> set ''abc'' \<and>
   (\<exists>p' fx. sendEmail net_down open_share_page = Inr (p', fx) \<and>
      requests fx = [share_request ''abc'' ''http://127.0.0.1:5000/survey/abc-123''])"
  using sendEmail_sends_every_nonempty_email [of open_share_page "''abc''"
      "''http://127.0.0.1:5000/survey/abc-123''" net_down]
  by (simp add: open_share_page_def)

subsection \<open>C2: the body of a submission\<close>

text \<open>
  C2 as stated fails where the form's data holds two entries under one name: the object
  has one property per name, and the second assignment overwrites the first. With the
  entries \<open>Colour = red\<close> and \<open>Colour = blue\<close> the body is \<open>{Colour: blue}\<close> and the
  pair \<open>(Colour, red)\<close> is not in it.
\<close>

theorem surveyForm_submit_repeated_name_counterexample:
  "requests (snd (surveyForm_submit net_down
      [(''Colour'', EString ''red''), (''Colour'', EString ''blue'')] rendered_survey_page)) =
     [\<lparr>req_method = ''POST'', req_url = ''/submit/abc-123'',
       req_headers = [(''Content-Type'', ''application/json'')],
       req_body = JsonBody (JObj [(''Colour'', JStr ''blue'')])\<rparr>] \<and>
   (''Colour'', JStr ''red'') \<notin> set [(''Colour'', JStr ''blue'')]"
  by (simp add: surveyForm_submit_def js_index_def net_down_def submit_catch_def
      submit_request_def json_stringify_data_def form_data_object_def obj_set_def
      rendered_survey_page_def Let_def)

text \<open>
  C2 (amended): a submission from a page whose path ends in a non-empty segment sends a
  single POST request to \<^verbatim>\<open>/submit/<survey_id>\<close> with the JSON content type, and its body
  is an object with one property per field name that maps every name other than
  \<^verbatim>\<open>__proto__\<close> to the value of the last entry the form's data holds under that name
  (a string as itself, a file as the empty object).
\<close>

theorem surveyForm_submit_body:
  assumes sid: "last (js_split CHR ''/'' (pathname pg)) = sid" "sid \<noteq> []"
    and run: "surveyForm_submit net entries pg = (pg', fx)"
  shows "\<exists>ps. requests fx =
           [\<lparr>req_method = ''POST'', req_url = ''/submit/'' @ sid,
             req_headers = [(''Content-Type'', ''application/json'')],
             req_body = JsonBody (JObj ps)\<rparr>] \<and>
         distinct (map fst ps) \<and>
         (\<forall>k. map_of ps k =
            (if k = ''__proto__'' then None
             else map_option entry_json (map_of (rev entries) k)))"
proof -
  let ?ps = "map (\<lambda>(key, v). (key, entry_json v)) (form_data_object entries)"
  have "requests fx = [submit_request sid (form_data_object entries)]"
    using surveyForm_submit_requests [OF sid, of net entries] run by simp
  then have "requests fx =
      [\<lparr>req_method = ''POST'', req_url = ''/submit/'' @ sid,
        req_headers = [(''Content-Type'', ''application/json'')],
        req_body = JsonBody (JObj ?ps)\<rparr>]"
    by (simp add: submit_request_def json_stringify_data_def)
  moreover have "distinct (map fst ?ps)"
    by (simp only: json_stringify_data_keys distinct_form_data_object)
  moreover have "\<forall>k. map_of ?ps k =
      (if k = ''__proto__'' then None else map_option entry_json (map_of (rev entries) k))"
    by (simp only: map_of_json_properties map_of_form_data_object) simp
  ultimately show ?thesis by blast
qed

theorem surveyForm_submit_body_witness:
  "\<exists>ps. requests (snd (surveyForm_submit net_down
             [(''Colour'', EString ''red''), (''Colour'', EString ''blue'')]
             rendered_survey_page)) =
           [\<lparr>req_method = ''POST'', req_url = ''/submit/abc-123'',
             req_headers = [(''Content-Type'', ''application/json'')],
             req_body = JsonBody (JObj ps)\<rparr>] \<and>
         map_of ps ''Colour'' = Some (JStr ''blue'')"
proof -
  have sid: "last (js_split CHR ''/'' (pathname rendered_survey_page)) = ''abc-123''"
    by (simp add: rendered_survey_page_def)
  have ne: "''abc-123'' \<noteq> []" by simp
  show ?thesis
    using surveyForm_submit_body [OF sid ne, of net_down
        "[(''Colour'', EString ''red''), (''Colour'', EString ''blue'')]"
        "fst (surveyForm_submit net_down
           [(''Colour'', EString ''red''), (''Colour'', EString ''blue'')] rendered_survey_page)"
        "snd (surveyForm_submit net_down
           [(''Colour'', EString ''red''), (''Colour'', EString ''blue'')] rendered_survey_page)"]
    by auto
qed

subsection \<open>C3: a chosen file is uploaded and, on success, published\<close>

text \<open>
  C3: for a file chosen in the upload control the handler sends one POST request to
  \<^verbatim>\<open>/upload\<close> whose form data holds the file under the name \<^verbatim>\<open>surveyFile\<close>. When the
  response is ok and returns a payload whose \<^verbatim>\<open>survey_url\<close> can be assigned to the
  input's value (a string is assigned as it is; only an object with a \<^verbatim>\<open>toString\<close>
  property of its own cannot be), the payload's \<^verbatim>\<open>survey_id\<close> becomes
  \<^verbatim>\<open>currentSurveyId\<close>, the \<^verbatim>\<open>survey_url\<close> is written to the share-link input, which
  keeps it as its sanitisation leaves it, the upload screen gets the class \<^verbatim>\<open>hidden\<close>
  and the published screen loses it.
\<close>

theorem fileInput_change_publishes:
  assumes run: "fileInput_change net (file # rest) p = (p', fx)"
  shows "requests fx = [upload_request file] \<and>
         req_method (upload_request file) = ''POST'' \<and>
         req_url (upload_request file) = ''/upload'' \<and>
         req_body (upload_request file) = FormDataBody [(''surveyFile'', file)] \<and>
         input_value (JStr link) = Inr link \<and>
         (net (upload_request file) = Response True (Some result) \<longrightarrow>
          get_prop result ''survey_id'' = Inr sid \<longrightarrow>
          get_prop result ''survey_url'' = Inr url \<longrightarrow>
          input_value url = Inr link \<longrightarrow>
            currentSurveyId p' = sid \<and>
            shareLinkInput p' = shareLinkInput_sanitize p link \<and>
            ''hidden'' \<in> set (uploadScreen p') \<and>
            ''hidden'' \<notin> set (publishedScreen p'))"
proof -
  have "requests fx = [upload_request file]"
    using fileInput_change_requests [of net "file" rest p] run by simp
  moreover have "currentSurveyId p' = sid \<and>
      shareLinkInput p' = shareLinkInput_sanitize p link \<and>
      ''hidden'' \<in> set (uploadScreen p') \<and> ''hidden'' \<notin> set (publishedScreen p')"
    if "net (upload_request file) = Response True (Some result)"
      and "get_prop result ''survey_id'' = Inr sid"
      and "get_prop result ''survey_url'' = Inr url"
      and "input_value url = Inr link"
    using run that
    by (auto simp: fileInput_change_def Let_def showModal_keeps set_class_add set_class_remove)
  ultimately show ?thesis
    by (simp add: upload_request_def)
qed

theorem fileInput_change_publishes_witness:
  "requests (snd (fileInput_change (net_reply True upload_reply) [sheet] loaded_admin_page)) =
     [upload_request sheet] \<and>
   currentSurveyId (fst (fileInput_change (net_reply True upload_reply) [sheet] loaded_admin_page)) =
     JStr ''abc-123'' \<and>
   shareLinkInput (fst (fileInput_change (net_reply True upload_reply) [sheet] loaded_admin_page)) =
     ''http://127.0.0.1:5000/survey/abc-123'' \<and>
   uploadScreen (fst (fileInput_change (net_reply True upload_reply) [sheet] loaded_admin_page)) =
     [''hidden''] \<and>
   publishedScreen (fst (fileInput_change (net_reply True upload_reply) [sheet] loaded_admin_page)) =
     []"
  using fileInput_change_publishes [of "net_reply True upload_reply" "sheet" "[]" loaded_admin_page
      "fst (fileInput_change (net_reply True upload_reply) [sheet] loaded_admin_page)"
      "snd (fileInput_change (net_reply True upload_reply) [sheet] loaded_admin_page)"
      "''http://127.0.0.1:5000/survey/abc-123''"
      upload_reply "JStr ''abc-123''" "JStr ''http://127.0.0.1:5000/survey/abc-123''"]
  by (simp add: net_reply_def upload_reply_def fileInput_change_def Let_def showModal_def
      loaded_admin_page_def text_input_sanitize_def class_add_def class_remove_def
      no_effects_def)

subsection \<open>C4: a refused upload changes nothing but the notification\<close>

text \<open>
  C4: when \<^verbatim>\<open>/upload\<close> answers with a response that is not ok, whatever its body,
  \<^verbatim>\<open>currentSurveyId\<close>, the share-link input and the class lists of both screens keep
  their values: the new page is the old one with the notification shown, titled
  \<^verbatim>\<open>Upload Failed\<close> (or \<^verbatim>\<open>Error\<close> when the body cannot be read), and there is no alert
  and no navigation.
\<close>

theorem fileInput_change_error_keeps_state:
  assumes reply: "net (upload_request file) = Response False body"
    and run: "fileInput_change net (file # rest) p = (p', fx)"
  shows "currentSurveyId p' = currentSurveyId p \<and>
         shareLinkInput p' = shareLinkInput p \<and>
         shareEmailInput p' = shareEmailInput p \<and>
         uploadScreen p' = uploadScreen p \<and>
         publishedScreen p' = publishedScreen p \<and>
         (\<exists>title message. p' = showModal title message p) \<and>
         modal_shown p' \<and>
         (modalTitle p' = ''Upload Failed'' \<or> modalTitle p' = ''Error'') \<and>
         requests fx = [upload_request file] \<and> alerts fx = [] \<and> navigations fx = []"
proof -
  have returned: "\<exists>message. showModal (JStr ''Upload Failed'') m p =
      showModal (JStr ''Upload Failed'') (JStr message) p"
    if "\<not> showModal_throws (JStr ''Upload Failed'') m" for m
    using showModal_returns [OF that, of p] by auto
  have fx: "requests fx = [upload_request file] \<and> alerts fx = [] \<and> navigations fx = []"
    and "p' = showModal (JStr ''Error'') (JStr ''Could not connect to the server.'') p \<or>
      (\<exists>m. \<not> showModal_throws (JStr ''Upload Failed'') m \<and>
         p' = showModal (JStr ''Upload Failed'') m p)"
    using run fileInput_change_not_ok [of net "file" body rest p] reply
    by (auto simp: upload_catch_def no_effects_def split: option.splits sum.splits if_splits)
  then have "\<exists>title message. p' = showModal (JStr title) (JStr message) p \<and>
      (title = ''Upload Failed'' \<or> title = ''Error'')"
  proof (elim disjE exE conjE)
    assume "p' = showModal (JStr ''Error'') (JStr ''Could not connect to the server.'') p"
    then show ?thesis by blast
  next
    fix m
    assume "\<not> showModal_throws (JStr ''Upload Failed'') m"
      and p': "p' = showModal (JStr ''Upload Failed'') m p"
    then obtain message where
      "showModal (JStr ''Upload Failed'') m p =
       showModal (JStr ''Upload Failed'') (JStr message) p"
      using returned by blast
    with p' show ?thesis by auto
  qed
  then obtain title message where p': "p' = showModal (JStr title) (JStr message) p"
    and title: "title = ''Upload Failed'' \<or> title = ''Error''"
    by blast
  from p' have "\<exists>title message. p' = showModal title message p"
    by blast
  with p' title fx show ?thesis
    by (auto simp: showModal_keeps showModal_texts modal_shown_showModal)
qed

theorem fileInput_change_error_keeps_state_witness:
  "fileInput_change (net_reply False error_reply) [sheet] loaded_admin_page =
     (loaded_admin_page\<lparr>modalTitle := ''Upload Failed'', modalMessage := ''Invalid file'',
        successModal := []\<rparr>,
      \<lparr>requests = [upload_request sheet], alerts = [], console = [], navigations = []\<rparr>) \<and>
   currentSurveyId (fst (fileInput_change (net_reply False error_reply) [sheet] loaded_admin_page)) =
     JNull \<and>
   uploadScreen (fst (fileInput_change (net_reply False error_reply) [sheet] loaded_admin_page)) =
     []"
  using fileInput_change_error_keeps_state [of "net_reply False error_reply" sheet
      "Some error_reply" "[]" loaded_admin_page
      "fst (fileInput_change (net_reply False error_reply) [sheet] loaded_admin_page)"
      "snd (fileInput_change (net_reply False error_reply) [sheet] loaded_admin_page)"]
  by (simp add: net_reply_def error_reply_def fileInput_change_def Let_def showModal_def
      showModal_throws_def loaded_admin_page_def class_add_def class_remove_def
      no_effects_def js_or_def)

subsection \<open>C5: network failures\<close>

text \<open>
  C5 as stated fails on the survey page: when \<^verbatim>\<open>fetch\<close> throws there, the handler
  catches the exception and alerts \<^verbatim>\<open>An error occurred while submitting the form.\<close>,
  not \<^verbatim>\<open>Could not connect to the server.\<close>
\<close>

theorem surveyForm_submit_failure_message_counterexample:
  "alerts (snd (surveyForm_submit net_down [] rendered_survey_page)) =
     [''An error occurred while submitting the form.''] \<and>
   fst (surveyForm_submit net_down [] rendered_survey_page) = rendered_survey_page \<and>
   ''Could not connect to the server.'' \<notin>
     set (alerts (snd (surveyForm_submit net_down [] rendered_survey_page)))"
  by (simp add: surveyForm_submit_def js_index_def net_down_def submit_catch_def
      rendered_survey_page_def Let_def)

text \<open>
  C5 (amended): in every request path a network-level failure is caught and answered
  with a generic message and nothing else. The upload handler and the email button show
  the notification with \<^verbatim>\<open>Could not connect to the server.\<close>; the survey form alerts
  \<^verbatim>\<open>An error occurred while submitting the form.\<close> and leaves the page as it is;
  \<^verbatim>\<open>sendEmail\<close> alerts \<^verbatim>\<open>Failed to connect to server.\<close>
\<close>

theorem network_failure_is_caught:
  "(net (upload_request file) = FetchFails \<longrightarrow>
      fileInput_change net (file # rest) p =
        (showModal (JStr ''Error'') (JStr ''Could not connect to the server.'') p,
         \<lparr>requests = [upload_request file], alerts = [],
          console = [''Error uploading file:''], navigations = []\<rparr>)) \<and>
   (shareEmailInput p \<noteq> [] \<and> CHR ''@'' \<in> set (shareEmailInput p) \<and>
    net (share_request (shareEmailInput p) (shareLinkInput p)) = FetchFails \<longrightarrow>
      emailButton_click net p =
        (showModal (JStr ''Error'') (JStr ''Could not connect to the server.'') p,
         \<lparr>requests = [share_request (shareEmailInput p) (shareLinkInput p)], alerts = [],
          console = [''Error sending email:''], navigations = []\<rparr>)) \<and>
   modalMessage (showModal (JStr ''Error'') (JStr ''Could not connect to the server.'') p) =
     ''Could not connect to the server.'' \<and>
   modal_shown (showModal (JStr ''Error'') (JStr ''Could not connect to the server.'') p) \<and>
   (last (js_split CHR ''/'' (pathname pg)) = sid \<and> sid \<noteq> [] \<and>
    net (submit_request sid (form_data_object entries)) = FetchFails \<longrightarrow>
      surveyForm_submit net entries pg =
        (pg, \<lparr>requests = [submit_request sid (form_data_object entries)],
              alerts = [''An error occurred while submitting the form.''],
              console = [''Submitting form data:'', ''Submission error:''],
              navigations = []\<rparr>)) \<and>
   (modalEmailInput sp = Some email \<and> modalLinkInput sp = Some link \<and> email \<noteq> [] \<and>
    net (share_request email link) = FetchFails \<longrightarrow>
      (\<exists>sp'. sendEmail net sp =
         Inr (sp', \<lparr>requests = [share_request email link],
                   alerts = ['' Failed to connect to server.''],
                   console = [''err''], navigations = []\<rparr>)))"
proof (intro conjI impI)
  assume "net (upload_request file) = FetchFails"
  then show "fileInput_change net (file # rest) p =
      (showModal (JStr ''Error'') (JStr ''Could not connect to the server.'') p,
       \<lparr>requests = [upload_request file], alerts = [],
        console = [''Error uploading file:''], navigations = []\<rparr>)"
    by (simp add: fileInput_change_fails upload_catch_def)
next
  assume "shareEmailInput p \<noteq> [] \<and> CHR ''@'' \<in> set (shareEmailInput p) \<and>
    net (share_request (shareEmailInput p) (shareLinkInput p)) = FetchFails"
  then show "emailButton_click net p =
      (showModal (JStr ''Error'') (JStr ''Could not connect to the server.'') p,
       \<lparr>requests = [share_request (shareEmailInput p) (shareLinkInput p)], alerts = [],
        console = [''Error sending email:''], navigations = []\<rparr>)"
    by (simp add: emailButton_click_fails email_catch_def)
next
  show "modalMessage (showModal (JStr ''Error'') (JStr ''Could not connect to the server.'') p) =
      ''Could not connect to the server.''"
    by (simp add: showModal_texts)
next
  show "modal_shown (showModal (JStr ''Error'') (JStr ''Could not connect to the server.'') p)"
    by (rule modal_shown_showModal)
next
  assume "last (js_split CHR ''/'' (pathname pg)) = sid \<and> sid \<noteq> [] \<and>
    net (submit_request sid (form_data_object entries)) = FetchFails"
  then show "surveyForm_submit net entries pg =
      (pg, \<lparr>requests = [submit_request sid (form_data_object entries)],
            alerts = [''An error occurred while submitting the form.''],
            console = [''Submitting form data:'', ''Submission error:''],
            navigations = []\<rparr>)"
    by (simp add: surveyForm_submit_with_id submit_catch_def)
next
  assume "modalEmailInput sp = Some email \<and> modalLinkInput sp = Some link \<and> email \<noteq> [] \<and>
    net (share_request email link) = FetchFails"
  then show "\<exists>sp'. sendEmail net sp =
      Inr (sp', \<lparr>requests = [share_request email link],
                alerts = ['' Failed to connect to server.''],
                console = [''err''], navigations = []\<rparr>)"
    using sendEmail_fails [of sp email link net] by (simp add: sendEmail_catch_def)
qed

theorem network_failure_is_caught_witness:
  "modalMessage (fst (fileInput_change net_down [sheet] loaded_admin_page)) =
     ''Could not connect to the server.'' \<and>
   modalMessage (fst (emailButton_click net_down published_admin_page)) =
     ''Could not connect to the server.'' \<and>
   alerts (snd (surveyForm_submit net_down [(''Name'', EString ''Ada'')] rendered_survey_page)) =
     [''An error occurred while submitting the form.''] \<and>
   (\<exists>sp'. sendEmail net_down open_share_page =
      Inr (sp', \<lparr>requests =
                  [share_request ''abc'' ''http://127.0.0.1:5000/survey/abc-123''],
                alerts = ['' Failed to connect to server.''],
                console = [''err''], navigations = []\<rparr>))"
proof -
  have sid: "last (js_split CHR ''/'' (pathname rendered_survey_page)) = ''abc-123''"
    by (simp add: rendered_survey_page_def)
  have down: "net_down req = FetchFails" for req
    by (simp add: net_down_def)
  have address: "shareEmailInput published_admin_page = ''ada@example.org''"
    by (simp add: published_admin_page_def loaded_admin_page_def)
  show ?thesis
    using network_failure_is_caught [of net_down "sheet" "[]" loaded_admin_page
        rendered_survey_page "''abc-123''" "[(''Name'', EString ''Ada'')]"
        open_share_page "''abc''" "''http://127.0.0.1:5000/survey/abc-123''"]
      network_failure_is_caught [of net_down "sheet" "[]" published_admin_page
        rendered_survey_page "''abc-123''" "[(''Name'', EString ''Ada'')]"
        open_share_page "''abc''" "''http://127.0.0.1:5000/survey/abc-123''"]
      sid address
    by (simp add: down open_share_page_def showModal_texts)
qed

subsection \<open>C6: the error of a response is displayed, and the display can be closed\<close>

text \<open>
  C6: when a response carries an error message \<open>m\<close> (a non-empty string under
  \<^verbatim>\<open>error\<close>), a refused upload and a refused share by the email button put \<open>m\<close> into
  the notification and show it, and \<^verbatim>\<open>hideModal\<close>, the handler of its close button,
  brings it back to its hidden state; a refused submission and \<^verbatim>\<open>sendEmail\<close> show
  \<open>m\<close> after the prefix \<^verbatim>\<open>Error:\<close> in an alert, the dialog the user closes before the
  script goes on. (Without a message the handlers display a default text instead.)
\<close>

theorem error_payload_is_displayed:
  assumes payload: "get_prop result ''error'' = Inr (JStr m)" and message: "m \<noteq> []"
  shows
    "(net (upload_request file) = Response False (Some result) \<longrightarrow>
        modalMessage (fst (fileInput_change net (file # rest) p)) = m \<and>
        modal_shown (fst (fileInput_change net (file # rest) p)) \<and>
        modal_hidden (hideModal (fst (fileInput_change net (file # rest) p)))) \<and>
     (shareEmailInput p \<noteq> [] \<and> CHR ''@'' \<in> set (shareEmailInput p) \<and>
      net (share_request (shareEmailInput p) (shareLinkInput p)) = Response False (Some result) \<longrightarrow>
        modalMessage (fst (emailButton_click net p)) = m \<and>
        modal_shown (fst (emailButton_click net p)) \<and>
        modal_hidden (hideModal (fst (emailButton_click net p)))) \<and>
     (last (js_split CHR ''/'' (pathname pg)) = sid \<and> sid \<noteq> [] \<and>
      net (submit_request sid (form_data_object entries)) = Response False (Some result) \<longrightarrow>
        alerts (snd (surveyForm_submit net entries pg)) = [''Error: '' @ m]) \<and>
     (modalEmailInput sp = Some email \<and> modalLinkInput sp = Some link \<and> email \<noteq> [] \<and>
      net (share_request email link) = Response ok (Some result) \<longrightarrow>
        (\<exists>sp' fx. sendEmail net sp = Inr (sp', fx) \<and> alerts fx = ['' Error: '' @ m]))"
proof (intro conjI impI)
  assume "net (upload_request file) = Response False (Some result)"
  then have run: "fileInput_change net (file # rest) p =
      (showModal (JStr ''Upload Failed'') (JStr m) p,
       no_effects\<lparr>requests := [upload_request file]\<rparr>)"
    using payload message
    by (simp add: fileInput_change_not_ok js_or_message showModal_strings_returns)
  show "modalMessage (fst (fileInput_change net (file # rest) p)) = m"
    by (simp add: run showModal_texts)
  show "modal_shown (fst (fileInput_change net (file # rest) p))"
    by (simp add: run modal_shown_showModal)
  show "modal_hidden (hideModal (fst (fileInput_change net (file # rest) p)))"
    by (rule modal_hidden_hideModal)
next
  assume "shareEmailInput p \<noteq> [] \<and> CHR ''@'' \<in> set (shareEmailInput p) \<and>
    net (share_request (shareEmailInput p) (shareLinkInput p)) = Response False (Some result)"
  then have run: "emailButton_click net p =
      (showModal (JStr ''Error'') (JStr m) p,
       no_effects\<lparr>requests := [share_request (shareEmailInput p) (shareLinkInput p)]\<rparr>)"
    using payload message emailButton_click_not_ok [of p net result "JStr m"]
    by (simp add: js_or_message showModal_strings_returns)
  show "modalMessage (fst (emailButton_click net p)) = m"
    by (simp add: run showModal_texts)
  show "modal_shown (fst (emailButton_click net p))"
    by (simp add: run modal_shown_showModal)
  show "modal_hidden (hideModal (fst (emailButton_click net p)))"
    by (rule modal_hidden_hideModal)
next
  assume "last (js_split CHR ''/'' (pathname pg)) = sid \<and> sid \<noteq> [] \<and>
    net (submit_request sid (form_data_object entries)) = Response False (Some result)"
  then show "alerts (snd (surveyForm_submit net entries pg)) = [''Error: '' @ m]"
    using payload message by (simp add: surveyForm_submit_with_id js_or_message)
next
  assume "modalEmailInput sp = Some email \<and> modalLinkInput sp = Some link \<and> email \<noteq> [] \<and>
    net (share_request email link) = Response ok (Some result)"
  then show "\<exists>sp' fx. sendEmail net sp = Inr (sp', fx) \<and> alerts fx = ['' Error: '' @ m]"
    using payload message sendEmail_error [of sp email link net ok result "JStr m" m]
    by auto
qed

theorem error_payload_is_displayed_witness:
  "modalMessage (fst (fileInput_change (net_reply False error_reply) [sheet]
      published_admin_page)) = ''Invalid file'' \<and>
   modal_hidden (hideModal (fst (fileInput_change (net_reply False error_reply) [sheet]
      published_admin_page))) \<and>
   modalMessage (fst (emailButton_click (net_reply False error_reply)
      published_admin_page)) = ''Invalid file'' \<and>
   alerts (snd (surveyForm_submit (net_reply False error_reply) [(''Name'', EString ''Ada'')]
      rendered_survey_page)) = [''Error: Invalid file''] \<and>
   (\<exists>sp' fx. sendEmail (net_reply False error_reply) open_share_page = Inr (sp', fx) \<and>
      alerts fx = ['' Error: Invalid file''])"
proof -
  have sid: "last (js_split CHR ''/'' (pathname rendered_survey_page)) = ''abc-123''"
    by (simp add: rendered_survey_page_def)
  have payload: "get_prop error_reply ''error'' = Inr (JStr ''Invalid file'')"
    by (simp add: error_reply_def)
  have message: "''Invalid file'' \<noteq> []" by simp
  have address: "shareEmailInput published_admin_page = ''ada@example.org''"
    by (simp add: published_admin_page_def loaded_admin_page_def)
  show ?thesis
    using error_payload_is_displayed [OF payload message, of "net_reply False error_reply"
        "sheet" "[]" published_admin_page
        rendered_survey_page "''abc-123''" "[(''Name'', EString ''Ada'')]"
        open_share_page "''abc''" "''http://127.0.0.1:5000/survey/abc-123''" False] sid address
    by (simp add: net_reply_def open_share_page_def)
qed

subsection \<open>C7: no retries\<close>

text \<open>
  C7: a run of a handler hands at most one request to \<^verbatim>\<open>fetch\<close>, whatever the network
  answers: the handlers have no loop and do not call themselves, so a failed request is
  not repeated until the user triggers the action again. (A handler that is left by an
  exception has sent none.)
\<close>

theorem handlers_fetch_at_most_once:
  "length (requests (snd (fileInput_change net files p))) \<le> 1 \<and>
   length (requests (snd (emailButton_click net p))) \<le> 1 \<and>
   (case downloadButton_click p of
      Inl e \<Rightarrow> True
    | Inr run \<Rightarrow> length (requests (snd run)) \<le> 1) \<and>
   length (requests (snd (surveyForm_submit net entries pg))) \<le> 1 \<and>
   (case sendEmail net sp of Inl e \<Rightarrow> True | Inr run \<Rightarrow> length (requests (snd run)) \<le> 1)"
proof (intro conjI)
  show "length (requests (snd (fileInput_change net files p))) \<le> 1"
  proof (cases files)
    case Nil
    then show ?thesis by (simp add: fileInput_change_def no_effects_def)
  next
    case (Cons chosen rest)
    then show ?thesis by (simp add: fileInput_change_requests)
  qed
  show "length (requests (snd (emailButton_click net p))) \<le> 1"
  proof (cases "shareEmailInput p = [] \<or> CHR ''@'' \<notin> set (shareEmailInput p)")
    case True
    then show ?thesis by (simp only: emailButton_click_invalid) (simp add: no_effects_def)
  next
    case False
    then show ?thesis by (simp add: emailButton_click_valid)
  qed
  show "case downloadButton_click p of
      Inl e \<Rightarrow> True
    | Inr run \<Rightarrow> length (requests (snd run)) \<le> 1"
    by (simp add: downloadButton_click_def no_effects_def split: sum.splits)
  show "length (requests (snd (surveyForm_submit net entries pg))) \<le> 1"
    by (cases "last (js_split CHR ''/'' (pathname pg)) = []")
      (simp_all add: surveyForm_submit_no_id surveyForm_submit_requests)
  show "case sendEmail net sp of Inl e \<Rightarrow> True | Inr run \<Rightarrow> length (requests (snd run)) \<le> 1"
    by (simp add: sendEmail_def sendEmail_catch_def no_effects_def Let_def
        split: fetch_result.splits option.splits sum.splits)
qed

theorem handlers_fetch_at_most_once_witness:
  "requests (snd (fileInput_change net_down [sheet] loaded_admin_page)) = [upload_request sheet] \<and>
   requests (snd (emailButton_click net_down loaded_admin_page)) = [] \<and>
   requests (snd (surveyForm_submit net_down [] rendered_survey_page)) =
     [submit_request ''abc-123'' []] \<and>
   length (requests (snd (fileInput_change net_down [sheet] loaded_admin_page))) \<le> 1 \<and>
   length (requests (snd (surveyForm_submit net_down [] rendered_survey_page))) \<le> 1"
  using handlers_fetch_at_most_once [of net_down "[sheet]" loaded_admin_page "[]"
      rendered_survey_page open_share_page]
  by (simp add: fileInput_change_requests emailButton_click_def loaded_admin_page_def
      showModal_def no_effects_def surveyForm_submit_def js_index_def net_down_def
      submit_catch_def rendered_survey_page_def form_data_object_def Let_def)

subsection \<open>C8: download\<close>

text \<open>
  C8: for a current survey id that the template literal can convert (every id but an
  object with a \<^verbatim>\<open>toString\<close> property of its own: \<^verbatim>\<open>null\<close>, a missing id and every
  string are converted), a click on the download control returns, and it navigates, to
  \<^verbatim>\<open>/download/<survey_id>\<close>, exactly when \<^verbatim>\<open>currentSurveyId\<close> is set (truthy, as the
  handler tests it). When it is not, as with the initial \<^verbatim>\<open>null\<close>, the handler shows
  the error notification and does not navigate. No request is sent by the script either
  way.
\<close>

theorem downloadButton_click_navigates:
  assumes printable: "to_string (currentSurveyId p) = Inr s"
  shows "\<exists>p' fx. downloadButton_click p = Inr (p', fx) \<and>
           (navigations fx \<noteq> []) = truthy (currentSurveyId p) \<and>
           (truthy (currentSurveyId p) \<longrightarrow>
              navigations fx = [''/download/'' @ s] \<and> p' = p) \<and>
           (\<not> truthy (currentSurveyId p) \<longrightarrow>
              navigations fx = [] \<and> modal_shown p' \<and>
              p' = showModal (JStr ''Error'')
                     (JStr ''Cannot download responses, survey ID is missing.'') p) \<and>
           requests fx = []"
proof (cases "truthy (currentSurveyId p)")
  case True
  with printable show ?thesis
    by (simp add: downloadButton_click_set no_effects_def)
next
  case False
  then show ?thesis
    by (simp add: downloadButton_click_unset no_effects_def modal_shown_showModal)
qed

theorem downloadButton_click_navigates_witness:
  "downloadButton_click loaded_admin_page =
     Inr (showModal (JStr ''Error'')
            (JStr ''Cannot download responses, survey ID is missing.'') loaded_admin_page,
          no_effects) \<and>
   downloadButton_click published_admin_page =
     Inr (published_admin_page, no_effects\<lparr>navigations := [''/download/abc-123'']\<rparr>)"
proof -
  have unset: "to_string (currentSurveyId loaded_admin_page) = Inr ''null''"
    by (simp add: loaded_admin_page_def)
  have set: "to_string (currentSurveyId published_admin_page) = Inr ''abc-123''"
    by (simp add: published_admin_page_def loaded_admin_page_def)
  show ?thesis
    using downloadButton_click_navigates [OF unset] downloadButton_click_navigates [OF set]
    by (simp add: downloadButton_click_def published_admin_page_def loaded_admin_page_def)
qed

subsection \<open>C9: a submitted form is reset and disabled\<close>




subsection \<open>C10: the survey id is the last segment of the path\<close>

text \<open>
  C10: the handler takes as survey id the last segment of the page's path, that is
  what follows the last \<^verbatim>\<open>'/'\<close>. When it is empty the handler alerts the user and
  returns with no request sent and the page unchanged; otherwise the request goes to
  \<^verbatim>\<open>/submit/\<close> followed by that segment.
\<close>

theorem surveyForm_submit_survey_id:
  assumes run: "surveyForm_submit net entries pg = (pg', fx)"
  shows "(last (js_split CHR ''/'' (pathname pg)) = [] \<longrightarrow>
            requests fx = [] \<and> pg' = pg \<and>
            alerts fx = [''Error: Cannot submit form without a survey ID.'']) \<and>
         (last (js_split CHR ''/'' (pathname pg)) \<noteq> [] \<longrightarrow>
            map req_url (requests fx) =
              [''/submit/'' @ last (js_split CHR ''/'' (pathname pg))]) \<and>
         last (js_split CHR ''/'' (pathname pg)) =
           rev (takeWhile (\<lambda>x. x \<noteq> CHR ''/'') (rev (pathname pg)))"
proof (intro conjI impI)
  assume "last (js_split CHR ''/'' (pathname pg)) = []"
  then have "surveyForm_submit net entries pg =
      (pg, \<lparr>requests = [], alerts = [''Error: Cannot submit form without a survey ID.''],
            console = [''Survey ID not found in URL!''], navigations = []\<rparr>)"
    by (rule surveyForm_submit_no_id)
  with run show "requests fx = []" and "pg' = pg"
    and "alerts fx = [''Error: Cannot submit form without a survey ID.'']"
    by auto
next
  assume "last (js_split CHR ''/'' (pathname pg)) \<noteq> []"
  then have "requests (snd (surveyForm_submit net entries pg)) =
      [submit_request (last (js_split CHR ''/'' (pathname pg))) (form_data_object entries)]"
    by (simp add: surveyForm_submit_requests)
  with run show "map req_url (requests fx) =
      [''/submit/'' @ last (js_split CHR ''/'' (pathname pg))]"
    by (simp add: submit_request_def)
next
  show "last (js_split CHR ''/'' (pathname pg)) =
      rev (takeWhile (\<lambda>x. x \<noteq> CHR ''/'') (rev (pathname pg)))"
    by (rule js_split_last)
qed

theorem surveyForm_submit_survey_id_witness:
  "js_split CHR ''/'' ''/survey/abc-123'' = [[], ''survey'', ''abc-123''] \<and>
   map req_url (requests (snd (surveyForm_submit net_down [] rendered_survey_page))) =
     [''/submit/abc-123''] \<and>
   js_split CHR ''/'' ''/survey/'' = [[], ''survey'', []] \<and>
   requests (snd (surveyForm_submit net_down [] (rendered_survey_page\<lparr>pathname := ''/survey/''\<rparr>))) =
     [] \<and>
   alerts (snd (surveyForm_submit net_down [] (rendered_survey_page\<lparr>pathname := ''/survey/''\<rparr>))) =
     [''Error: Cannot submit form without a survey ID.'']"
  using surveyForm_submit_survey_id [of net_down "[]" rendered_survey_page
      "fst (surveyForm_submit net_down [] rendered_survey_page)"
      "snd (surveyForm_submit net_down [] rendered_survey_page)"]
    surveyForm_submit_survey_id [of net_down "[]" "rendered_survey_page\<lparr>pathname := ''/survey/''\<rparr>"
      "fst (surveyForm_submit net_down [] (rendered_survey_page\<lparr>pathname := ''/survey/''\<rparr>))"
      "snd (surveyForm_submit net_down [] (rendered_survey_page\<lparr>pathname := ''/survey/''\<rparr>))"]
  by (simp add: rendered_survey_page_def)

end
